theory Spec2Isabelle
  imports Main
begin

section \<open>The term table (packages/types/src/terms.ts)\<close>

text \<open>
  A term record is \<open>{shortName, longName, startDate?}\<close>; the optional start date is a
  triple \<open>[year, monthIndex, day]\<close> with months counted from 0.
\<close>

record term_entry =
  shortName :: string
  longName :: string
  startDate :: "(nat \<times> nat \<times> nat) option"

definition termsArray :: "term_entry list" where
  "termsArray =
    [\<lparr>shortName = ''2023 Fall'', longName = ''2023 Fall Quarter'', startDate = Some (2023, 8, 28)\<rparr>,
     \<lparr>shortName = ''2023 Summer2'', longName = ''2023 Summer Session 2'', startDate = Some (2023, 7, 7)\<rparr>,
     \<lparr>shortName = ''2023 Summer10wk'', longName = ''2023 10-wk Summer'', startDate = Some (2023, 5, 26)\<rparr>,
     \<lparr>shortName = ''2023 Summer1'', longName = ''2023 Summer Session 1'', startDate = Some (2023, 5, 26)\<rparr>,
     \<lparr>shortName = ''2023 Spring'', longName = ''2023 Spring Quarter'', startDate = Some (2023, 3, 3)\<rparr>,
     \<lparr>shortName = ''2023 Winter'', longName = ''2023 Winter Quarter'', startDate = Some (2023, 0, 9)\<rparr>,
     \<lparr>shortName = ''2022 Fall'', longName = ''2022 Fall Quarter'', startDate = Some (2022, 8, 22)\<rparr>,
     \<lparr>shortName = ''2022 Summer2'', longName = ''2022 Summer Session 2'', startDate = Some (2022, 7, 1)\<rparr>,
     \<lparr>shortName = ''2022 Summer10wk'', longName = ''2022 10-wk Summer'', startDate = Some (2022, 5, 20)\<rparr>,
     \<lparr>shortName = ''2022 Summer1'', longName = ''2022 Summer Session 1'', startDate = Some (2022, 5, 20)\<rparr>,
     \<lparr>shortName = ''2022 Spring'', longName = ''2022 Spring Quarter'', startDate = Some (2022, 2, 28)\<rparr>,
     \<lparr>shortName = ''2022 Winter'', longName = ''2022 Winter Quarter'', startDate = Some (2022, 0, 3)\<rparr>,
     \<lparr>shortName = ''2021 Fall'', longName = ''2021 Fall Quarter'', startDate = Some (2021, 8, 23)\<rparr>,
     \<lparr>shortName = ''2021 Summer2'', longName = ''2021 Summer Session 2'', startDate = None\<rparr>,
     \<lparr>shortName = ''2021 Summer10wk'', longName = ''2021 10-wk Summer'', startDate = None\<rparr>,
     \<lparr>shortName = ''2021 Summer1'', longName = ''2021 Summer Session 1'', startDate = None\<rparr>,
     \<lparr>shortName = ''2021 Spring'', longName = ''2021 Spring Quarter'', startDate = Some (2021, 2, 29)\<rparr>,
     \<lparr>shortName = ''2021 Winter'', longName = ''2021 Winter Quarter'', startDate = Some (2021, 0, 4)\<rparr>,
     \<lparr>shortName = ''2020 Fall'', longName = ''2020 Fall Quarter'', startDate = Some (2020, 9, 1)\<rparr>,
     \<lparr>shortName = ''2020 Summer2'', longName = ''2020 Summer Session 2'', startDate = None\<rparr>,
     \<lparr>shortName = ''2020 Summer10wk'', longName = ''2020 10-wk Summer'', startDate = None\<rparr>,
     \<lparr>shortName = ''2020 Summer1'', longName = ''2020 Summer Session 1'', startDate = None\<rparr>,
     \<lparr>shortName = ''2020 Spring'', longName = ''2020 Spring Quarter'', startDate = Some (2020, 2, 30)\<rparr>,
     \<lparr>shortName = ''2020 Winter'', longName = ''2020 Winter Quarter'', startDate = Some (2020, 0, 6)\<rparr>,
     \<lparr>shortName = ''2019 Fall'', longName = ''2019 Fall Quarter'', startDate = Some (2019, 8, 26)\<rparr>,
     \<lparr>shortName = ''2019 Summer2'', longName = ''2019 Summer Session 2'', startDate = None\<rparr>,
     \<lparr>shortName = ''2019 Summer10wk'', longName = ''2019 10-wk Summer'', startDate = None\<rparr>,
     \<lparr>shortName = ''2019 Summer1'', longName = ''2019 Summer Session 1'', startDate = None\<rparr>,
     \<lparr>shortName = ''2019 Spring'', longName = ''2019 Spring Quarter'', startDate = None\<rparr>,
     \<lparr>shortName = ''2019 Winter'', longName = ''2019 Winter Quarter'', startDate = None\<rparr>,
     \<lparr>shortName = ''2018 Fall'', longName = ''2018 Fall Quarter'', startDate = None\<rparr>,
     \<lparr>shortName = ''2018 Summer2'', longName = ''2018 Summer Session 2'', startDate = None\<rparr>,
     \<lparr>shortName = ''2018 Summer10wk'', longName = ''2018 10-wk Summer'', startDate = None\<rparr>,
     \<lparr>shortName = ''2018 Summer1'', longName = ''2018 Summer Session 1'', startDate = None\<rparr>,
     \<lparr>shortName = ''2018 Spring'', longName = ''2018 Spring Quarter'', startDate = None\<rparr>,
     \<lparr>shortName = ''2018 Winter'', longName = ''2018 Winter Quarter'', startDate = None\<rparr>,
     \<lparr>shortName = ''2017 Fall'', longName = ''2017 Fall Quarter'', startDate = None\<rparr>,
     \<lparr>shortName = ''2017 Summer2'', longName = ''2017 Summer Session 2'', startDate = None\<rparr>,
     \<lparr>shortName = ''2017 Summer10wk'', longName = ''2017 10-wk Summer'', startDate = None\<rparr>,
     \<lparr>shortName = ''2017 Summer1'', longName = ''2017 Summer Session 1'', startDate = None\<rparr>,
     \<lparr>shortName = ''2017 Spring'', longName = ''2017 Spring Quarter'', startDate = None\<rparr>,
     \<lparr>shortName = ''2017 Winter'', longName = ''2017 Winter Quarter'', startDate = None\<rparr>,
     \<lparr>shortName = ''2016 Fall'', longName = ''2016 Fall Quarter'', startDate = None\<rparr>,
     \<lparr>shortName = ''2016 Summer2'', longName = ''2016 Summer Session 2'', startDate = None\<rparr>,
     \<lparr>shortName = ''2016 Summer10wk'', longName = ''2016 10-wk Summer'', startDate = None\<rparr>,
     \<lparr>shortName = ''2016 Summer1'', longName = ''2016 Summer Session 1'', startDate = None\<rparr>,
     \<lparr>shortName = ''2016 Spring'', longName = ''2016 Spring Quarter'', startDate = None\<rparr>,
     \<lparr>shortName = ''2016 Winter'', longName = ''2016 Winter Quarter'', startDate = None\<rparr>,
     \<lparr>shortName = ''2015 Fall'', longName = ''2015 Fall Quarter'', startDate = None\<rparr>,
     \<lparr>shortName = ''2015 Summer2'', longName = ''2015 Summer Session 2'', startDate = None\<rparr>,
     \<lparr>shortName = ''2015 Summer10wk'', longName = ''2015 10-wk Summer'', startDate = None\<rparr>,
     \<lparr>shortName = ''2015 Summer1'', longName = ''2015 Summer Session 1'', startDate = None\<rparr>,
     \<lparr>shortName = ''2015 Spring'', longName = ''2015 Spring Quarter'', startDate = None\<rparr>,
     \<lparr>shortName = ''2015 Winter'', longName = ''2015 Winter Quarter'', startDate = None\<rparr>,
     \<lparr>shortName = ''2014 Fall'', longName = ''2014 Fall Quarter'', startDate = None\<rparr>]"

text \<open>
  \<open>[...termsArray.map((term) => term.shortName), 'Multiple Terms', 'Any Term']\<close>
\<close>

definition termNamesArray :: "string list" where
  "termNamesArray = map (\<lambda>term. shortName term) termsArray @ [''Multiple Terms'', ''Any Term'']"

datatype validation_error = ValidationError string

text \<open>
  Modelled from the spec: \<open>enumerate\<close> (package peterportal-schemas) and the schema
  constructor \<open>type\<close> that \<open>TermNamesSchema = type(enumerate(termNamesArray))\<close> is built
  from are not among the sources. Following section 4.4 of the specification, validation
  returns the candidate when it is one of the compiled term names or sentinels, and fails
  with a validation error for any other string.
\<close>

definition TermNamesSchema :: "string \<Rightarrow> validation_error + string" where
  "TermNamesSchema candidate =
     (if candidate \<in> set termNamesArray then Inr candidate
      else Inl (ValidationError candidate))"

subsection \<open>Reading a short name\<close>

text \<open>
  A short name is written \<open>"<year> <session>"\<close>. The following functions read the two
  components back; they are used to state the order of the table.
\<close>

definition digitValue :: "char \<Rightarrow> nat" where
  "digitValue c = of_char c - 48"

definition termYear :: "string \<Rightarrow> nat" where
  "termYear s = fold (\<lambda>c n. 10 * n + digitValue c) (takeWhile (\<lambda>c. c \<noteq> CHR '' '') s) 0"

definition termSession :: "string \<Rightarrow> string" where
  "termSession s = drop 1 (dropWhile (\<lambda>c. c \<noteq> CHR '' '') s)"

definition sessionsNewestFirst :: "string list" where
  "sessionsNewestFirst =
     [''Fall'', ''Summer2'', ''Summer10wk'', ''Summer1'', ''Spring'', ''Winter'']"

text \<open>Position of a session in the newest-first list (6 for a string that is no session).\<close>

definition sessionPosition :: "string \<Rightarrow> nat" where
  "sessionPosition s = length (takeWhile (\<lambda>x. x \<noteq> s) sessionsNewestFirst)"

text \<open>
  The key of a term is its year and the position of its session; \<open>newerKey a b\<close> says
  that key \<open>a\<close> is strictly newer than key \<open>b\<close>, and \<open>listedBefore a b\<close> that the term
  named \<open>a\<close> is strictly newer than the term named \<open>b\<close>.
\<close>

definition termKey :: "string \<Rightarrow> nat \<times> nat" where
  "termKey s = (termYear s, sessionPosition (termSession s))"

definition newerKey :: "nat \<times> nat \<Rightarrow> nat \<times> nat \<Rightarrow> bool" where
  "newerKey a b = (fst b < fst a \<or> (fst a = fst b \<and> snd a < snd b))"

definition listedBefore :: "string \<Rightarrow> string \<Rightarrow> bool" where
  "listedBefore a b = newerKey (termKey a) (termKey b)"

section \<open>The calendar toolbar (components/Calendar/CalendarToolbar.tsx)\<close>

subsection \<open>Collaborators\<close>

text \<open>
  The store maps a term to a list of (index, name) pairs. A JavaScript \<open>Map\<close> iterates in
  insertion order, so the map is an association list.
\<close>

type_synonym schedule_map = "(string \<times> (int \<times> string) list) list"

text \<open>
  The store and its action dispatchers are imported by the toolbar and are not part of
  it: they are parameters of the model, over an arbitrary store state \<open>'s\<close>.
  \<open>undoDelete\<close> is always called with \<open>null\<close>.
\<close>

record 's AppStore =
  getCurrentScheduleIndex :: "'s \<Rightarrow> int"
  getTermToScheduleMap :: "'s \<Rightarrow> schedule_map"
  getNumberOfSchedules :: "'s \<Rightarrow> nat"
  changeCurrentSchedule :: "int \<Rightarrow> 's \<Rightarrow> 's"
  clearSchedules :: "'s \<Rightarrow> 's"
  undoDelete :: "'s \<Rightarrow> 's"

datatype analytics_category = CalendarTitle

datatype analytics_action = CHANGE_SCHEDULE | UNDO | CLEAR_SCHEDULE | DISPLAY_FINALS

datatype store_action =
  ChangeCurrentSchedule int | ClearSchedules | UndoDelete | ToggleDisplayFinalsSchedule

text \<open>
  The world outside the component: the store state, and the calls made to the analytics
  collaborator and to the action dispatchers, oldest first.
\<close>

datatype call = LogAnalytics analytics_category analytics_action | Dispatch store_action

record 's world =
  store :: 's
  calls :: "call list"

definition logAnalytics :: "analytics_category \<Rightarrow> analytics_action \<Rightarrow> 's world \<Rightarrow> 's world" where
  "logAnalytics c a w = w\<lparr>calls := calls w @ [LogAnalytics c a]\<rparr>"

definition dispatch :: "store_action \<Rightarrow> ('s \<Rightarrow> 's) \<Rightarrow> 's world \<Rightarrow> 's world" where
  "dispatch a f w = w\<lparr>store := f (store w), calls := calls w @ [Dispatch a]\<rparr>"

text \<open>The calls made between two worlds.\<close>

definition newCalls :: "'s world \<Rightarrow> 's world \<Rightarrow> call list" where
  "newCalls w w' = drop (length (calls w)) (calls w')"

fun analyticsThenMutation :: "call list \<Rightarrow> bool" where
  "analyticsThenMutation [LogAnalytics c a, Dispatch m] = True"
| "analyticsThenMutation cs = False"

subsection \<open>Toolbar actions\<close>

definition handleScheduleChange :: "'s AppStore \<Rightarrow> int \<Rightarrow> 's world \<Rightarrow> 's world" where
  "handleScheduleChange api index w =
     dispatch (ChangeCurrentSchedule index) (changeCurrentSchedule api index)
       (logAnalytics CalendarTitle CHANGE_SCHEDULE w)"

definition createScheduleSelector :: "'s AppStore \<Rightarrow> int \<Rightarrow> ('s world \<Rightarrow> 's world)" where
  "createScheduleSelector api index = (\<lambda>w. handleScheduleChange api index w)"

definition handleUndo :: "'s AppStore \<Rightarrow> 's world \<Rightarrow> 's world" where
  "handleUndo api w =
     dispatch UndoDelete (undoDelete api) (logAnalytics CalendarTitle UNDO w)"

text \<open>\<open>window.confirm\<close> is the user's answer to a prompt.\<close>

definition clearPrompt :: string where
  "clearPrompt = ''Are you sure you want to clear this schedule?''"

definition handleClearSchedule :: "'s AppStore \<Rightarrow> (string \<Rightarrow> bool) \<Rightarrow> 's world \<Rightarrow> 's world" where
  "handleClearSchedule api confirm w =
     (if confirm clearPrompt
      then logAnalytics CalendarTitle CLEAR_SCHEDULE
             (dispatch ClearSchedules (clearSchedules api) w)
      else w)"

text \<open>\<open>toggleDisplayFinalsSchedule\<close> is a callback passed down by the parent.\<close>

definition handleToggleFinals :: "('s \<Rightarrow> 's) \<Rightarrow> 's world \<Rightarrow> 's world" where
  "handleToggleFinals toggleDisplayFinalsSchedule w =
     dispatch ToggleDisplayFinalsSchedule toggleDisplayFinalsSchedule
       (logAnalytics CalendarTitle DISPLAY_FINALS w)"

subsection \<open>The delete button\<close>

text \<open>A disabled button does not run its click handler.\<close>

definition buttonClick :: "bool \<Rightarrow> ('a \<Rightarrow> 'a) \<Rightarrow> 'a \<Rightarrow> 'a" where
  "buttonClick disabled onClick st = (if disabled then st else onClick st)"

text \<open>
  The local state of \<open>DeleteScheduleButton\<close> is the flag \<open>open\<close> of its dialog; the
  schedule can only be deleted from the open dialog.
\<close>

definition DeleteScheduleButton_disabled :: "'s AppStore \<Rightarrow> 's \<Rightarrow> bool" where
  "DeleteScheduleButton_disabled api s = (getNumberOfSchedules api s = 1)"

definition DeleteScheduleButton_handleOpen :: "bool \<Rightarrow> bool" where
  "DeleteScheduleButton_handleOpen opened = True"

definition DeleteScheduleButton_handleClose :: "bool \<Rightarrow> bool" where
  "DeleteScheduleButton_handleClose opened = False"

definition DeleteScheduleButton_click :: "'s AppStore \<Rightarrow> 's \<Rightarrow> bool \<Rightarrow> bool" where
  "DeleteScheduleButton_click api s opened =
     buttonClick (DeleteScheduleButton_disabled api s) DeleteScheduleButton_handleOpen opened"

subsection \<open>The schedule selector popover\<close>

text \<open>The loops of the \<open>currentScheduleName\<close> callback: inner loop, then outer loop.\<close>

fun searchPairs :: "(int \<times> string) list \<Rightarrow> int \<Rightarrow> string option" where
  "searchPairs [] currentIndex = None"
| "searchPairs ((index, scheduleName) # rest) currentIndex =
     (if index = currentIndex then Some scheduleName else searchPairs rest currentIndex)"

fun searchValues :: "(int \<times> string) list list \<Rightarrow> int \<Rightarrow> string" where
  "searchValues [] currentIndex = ''N/A''"
| "searchValues (schedulePairs # rest) currentIndex =
     (case searchPairs schedulePairs currentIndex of
        Some scheduleName \<Rightarrow> scheduleName
      | None \<Rightarrow> searchValues rest currentIndex)"

definition computeCurrentScheduleName :: "schedule_map \<Rightarrow> int \<Rightarrow> string" where
  "computeCurrentScheduleName m currentIndex = searchValues (map snd m) currentIndex"

text \<open>
  \<open>useMemo(callback, [currentScheduleIndex])\<close>: the callback runs on the first render and
  whenever the dependency differs from the one of the previous render; otherwise the
  value of the previous render is returned.
\<close>

record name_memo =
  memoDeps :: int
  memoValue :: string

definition useMemo_currentScheduleName :: "name_memo option \<Rightarrow> schedule_map \<Rightarrow> int \<Rightarrow> name_memo" where
  "useMemo_currentScheduleName previous m currentIndex =
     (case previous of
        None \<Rightarrow> \<lparr>memoDeps = currentIndex, memoValue = computeCurrentScheduleName m currentIndex\<rparr>
      | Some cell \<Rightarrow>
          if memoDeps cell = currentIndex then cell
          else \<lparr>memoDeps = currentIndex, memoValue = computeCurrentScheduleName m currentIndex\<rparr>)"

text \<open>The state of one \<open>SelectSchedulePopover\<close>; an element is named by a number.\<close>

record popover_state =
  currentScheduleIndex :: int
  anchorEl :: "nat option"
  scheduleMap :: schedule_map
  nameMemo :: "name_memo option"

definition SelectSchedulePopover_init :: "'s AppStore \<Rightarrow> 's \<Rightarrow> popover_state" where
  "SelectSchedulePopover_init api s =
     \<lparr>currentScheduleIndex = getCurrentScheduleIndex api s, anchorEl = None,
      scheduleMap = getTermToScheduleMap api s, nameMemo = None\<rparr>"

definition render :: "popover_state \<Rightarrow> popover_state" where
  "render st =
     st\<lparr>nameMemo :=
          Some (useMemo_currentScheduleName (nameMemo st) (scheduleMap st) (currentScheduleIndex st))\<rparr>"

text \<open>The name on the button, after a render.\<close>

definition currentScheduleName :: "popover_state \<Rightarrow> string" where
  "currentScheduleName st =
     memoValue (useMemo_currentScheduleName (nameMemo st) (scheduleMap st) (currentScheduleIndex st))"

definition popoverOpen :: "popover_state \<Rightarrow> bool" where
  "popoverOpen st = (anchorEl st \<noteq> None)"

definition handleClick :: "nat \<Rightarrow> popover_state \<Rightarrow> popover_state" where
  "handleClick currentTarget st = st\<lparr>anchorEl := Some currentTarget\<rparr>"

definition handleClose :: "popover_state \<Rightarrow> popover_state" where
  "handleClose st = st\<lparr>anchorEl := None\<rparr>"

definition handleScheduleIndexChange :: "'s AppStore \<Rightarrow> 's \<Rightarrow> popover_state \<Rightarrow> popover_state" where
  "handleScheduleIndexChange api s st = st\<lparr>currentScheduleIndex := getCurrentScheduleIndex api s\<rparr>"

definition handleScheduleNamesChange :: "'s AppStore \<Rightarrow> 's \<Rightarrow> popover_state \<Rightarrow> popover_state" where
  "handleScheduleNamesChange api s st = st\<lparr>scheduleMap := getTermToScheduleMap api s\<rparr>"

subsection \<open>Store events\<close>

text \<open>
  Modelled from the spec: the store's \<open>on\<close> and \<open>off\<close> (subscribe and unsubscribe by
  event name) are not among the sources. The store keeps, for every event name, the
  list of subscribed callbacks; \<open>on\<close> adds the callback at the end of the list of that
  name, \<open>off\<close> removes the callback's most recent subscription to that name.
\<close>

type_synonym 'h emitter = "string \<Rightarrow> 'h list"

definition AppStore_on :: "string \<Rightarrow> 'h \<Rightarrow> 'h emitter \<Rightarrow> 'h emitter" where
  "AppStore_on name h em = em(name := em name @ [h])"

definition AppStore_off :: "string \<Rightarrow> 'h \<Rightarrow> 'h emitter \<Rightarrow> 'h emitter" where
  "AppStore_off name h em = em(name := rev (remove1 h (rev (em name))))"

text \<open>The calls of the effect of \<open>SelectSchedulePopover\<close> and of its cleanup, in order.\<close>

definition effectSubscriptions :: "'h \<Rightarrow> 'h \<Rightarrow> (string \<times> 'h) list" where
  "effectSubscriptions handleIndex handleNames =
     [(''addedCoursesChange'', handleIndex),
      (''customEventsChange'', handleIndex),
      (''colorChange'', handleIndex),
      (''currentScheduleIndexChange'', handleIndex),
      (''scheduleNamesChange'', handleNames)]"

definition cleanupUnsubscriptions :: "'h \<Rightarrow> 'h \<Rightarrow> (string \<times> 'h) list" where
  "cleanupUnsubscriptions handleIndex handleNames =
     [(''addedCoursesChange'', handleIndex),
      (''customEventsChange'', handleIndex),
      (''colorChange'', handleIndex),
      (''currentScheduleIndexChange'', handleIndex),
      (''scheduleNamesChange'', handleNames)]"

definition useEffect_mount :: "'h \<Rightarrow> 'h \<Rightarrow> 'h emitter \<Rightarrow> 'h emitter" where
  "useEffect_mount handleIndex handleNames em =
     fold (\<lambda>(name, h). AppStore_on name h) (effectSubscriptions handleIndex handleNames) em"

definition useEffect_cleanup :: "'h \<Rightarrow> 'h \<Rightarrow> 'h emitter \<Rightarrow> 'h emitter" where
  "useEffect_cleanup handleIndex handleNames em =
     fold (\<lambda>(name, h). AppStore_off name h) (cleanupUnsubscriptions handleIndex handleNames) em"

text \<open>The two callbacks of the popover, and what the store does when it emits an event.\<close>

datatype listener = HandleScheduleIndexChange | HandleScheduleNamesChange

fun runListener :: "'s AppStore \<Rightarrow> 's \<Rightarrow> listener \<Rightarrow> popover_state \<Rightarrow> popover_state" where
  "runListener api s HandleScheduleIndexChange st = handleScheduleIndexChange api s st"
| "runListener api s HandleScheduleNamesChange st = handleScheduleNamesChange api s st"

definition emit :: "'s AppStore \<Rightarrow> 's \<Rightarrow> listener emitter \<Rightarrow> string \<Rightarrow> popover_state \<Rightarrow> popover_state" where
  "emit api s em name st = fold (runListener api s) (em name) st"

subsection \<open>The schedule buttons of the popover\<close>

text \<open>
  The popover lists, term after term, one button for every (index, name) pair of the
  map: its key is the index, its label the name, it is highlighted when the index is
  the current one, and its click handler is \<open>createScheduleSelector(scheduleIndex)\<close>.
\<close>

record 's schedule_button =
  buttonKey :: int
  buttonLabel :: string
  buttonSelected :: bool
  buttonOnClick :: "'s world \<Rightarrow> 's world"

definition scheduleButtons :: "'s AppStore \<Rightarrow> popover_state \<Rightarrow> 's schedule_button list" where
  "scheduleButtons api st =
     concat (map (\<lambda>(termName, scheduleNames).
                    map (\<lambda>(scheduleIndex, scheduleName).
                           \<lparr>buttonKey = scheduleIndex, buttonLabel = scheduleName,
                            buttonSelected = (scheduleIndex = currentScheduleIndex st),
                            buttonOnClick = createScheduleSelector api scheduleIndex\<rparr>)
                        scheduleNames)
                 (scheduleMap st))"

text \<open>
  A click on a button runs the button's handler; \<open>emitted\<close> are the events the store
  emits while the action is dispatched, delivered to the callbacks subscribed in \<open>em\<close>.
\<close>

definition clickScheduleButton ::
  "'s AppStore \<Rightarrow> listener emitter \<Rightarrow> string list \<Rightarrow> 's schedule_button \<Rightarrow>
     popover_state \<times> 's world \<Rightarrow> popover_state \<times> 's world" where
  "clickScheduleButton api em emitted button cfg =
     (let w' = buttonOnClick button (snd cfg);
          st' = fold (\<lambda>name. emit api (store w') em name) emitted (fst cfg)
      in (st', w'))"

section \<open>A sample store\<close>

text \<open>
  A small store for evaluating the toolbar on concrete inputs: the state is the current
  schedule index and the term-to-schedule map, and the number of schedules is the number
  of (index, name) pairs of the map.
\<close>

definition sampleStore :: "(int \<times> schedule_map) AppStore" where
  "sampleStore =
     \<lparr>getCurrentScheduleIndex = (\<lambda>s. fst s),
      getTermToScheduleMap = (\<lambda>s. snd s),
      getNumberOfSchedules = (\<lambda>s. length (concat (map snd (snd s)))),
      changeCurrentSchedule = (\<lambda>index s. (index, snd s)),
      clearSchedules = (\<lambda>s. s),
      undoDelete = (\<lambda>s. s)\<rparr>"

definition oneSchedule :: "int \<times> schedule_map" where
  "oneSchedule = (0, [(''2023 Fall'', [(0, ''Schedule 1'')])])"

definition oneScheduleRenamed :: "int \<times> schedule_map" where
  "oneScheduleRenamed = (0, [(''2023 Fall'', [(0, ''Renamed'')])])"

definition twoSchedules :: "int \<times> schedule_map" where
  "twoSchedules = (0, [(''2023 Fall'', [(0, ''Schedule 1''), (1, ''Schedule 2'')])])"

definition sampleWorld :: "(int \<times> schedule_map) world" where
  "sampleWorld = \<lparr>store = twoSchedules, calls = []\<rparr>"

definition userAccepts :: "string \<Rightarrow> bool" where
  "userAccepts prompt = True"

definition userDeclines :: "string \<Rightarrow> bool" where
  "userDeclines prompt = False"

definition sampleToggle :: "int \<times> schedule_map \<Rightarrow> int \<times> schedule_map" where
  "sampleToggle s = s"

text \<open>The popover, mounted on the sample store, rendered and opened from element 7.\<close>

definition sampleEmitter :: "listener emitter" where
  "sampleEmitter =
     useEffect_mount HandleScheduleIndexChange HandleScheduleNamesChange (\<lambda>name. [])"

definition openedPopover :: popover_state where
  "openedPopover = handleClick 7 (render (SelectSchedulePopover_init sampleStore twoSchedules))"

text \<open>The second schedule button of the opened popover.\<close>

definition secondButton :: "(int \<times> schedule_map) schedule_button" where
  "secondButton = scheduleButtons sampleStore openedPopover ! 1"

text \<open>
  The popover, rendered on a store with one schedule, after the store announced new
  schedule names (the schedule was renamed; its index is still the current one).
\<close>

definition renamedPopover :: popover_state where
  "renamedPopover =
     handleScheduleNamesChange sampleStore oneScheduleRenamed
       (render (SelectSchedulePopover_init sampleStore oneSchedule))"

section \<open>The term table: names, uniqueness, order\<close>

lemma termNamesArray_unfold:
  "termNamesArray = map shortName termsArray @ [''Multiple Terms'', ''Any Term'']"
  by (simp add: termNamesArray_def)

lemma shortNames_list:
  "map shortName termsArray =
     [''2023 Fall'',
      ''2023 Summer2'',
      ''2023 Summer10wk'',
      ''2023 Summer1'',
      ''2023 Spring'',
      ''2023 Winter'',
      ''2022 Fall'',
      ''2022 Summer2'',
      ''2022 Summer10wk'',
      ''2022 Summer1'',
      ''2022 Spring'',
      ''2022 Winter'',
      ''2021 Fall'',
      ''2021 Summer2'',
      ''2021 Summer10wk'',
      ''2021 Summer1'',
      ''2021 Spring'',
      ''2021 Winter'',
      ''2020 Fall'',
      ''2020 Summer2'',
      ''2020 Summer10wk'',
      ''2020 Summer1'',
      ''2020 Spring'',
      ''2020 Winter'',
      ''2019 Fall'',
      ''2019 Summer2'',
      ''2019 Summer10wk'',
      ''2019 Summer1'',
      ''2019 Spring'',
      ''2019 Winter'',
      ''2018 Fall'',
      ''2018 Summer2'',
      ''2018 Summer10wk'',
      ''2018 Summer1'',
      ''2018 Spring'',
      ''2018 Winter'',
      ''2017 Fall'',
      ''2017 Summer2'',
      ''2017 Summer10wk'',
      ''2017 Summer1'',
      ''2017 Spring'',
      ''2017 Winter'',
      ''2016 Fall'',
      ''2016 Summer2'',
      ''2016 Summer10wk'',
      ''2016 Summer1'',
      ''2016 Spring'',
      ''2016 Winter'',
      ''2015 Fall'',
      ''2015 Summer2'',
      ''2015 Summer10wk'',
      ''2015 Summer1'',
      ''2015 Spring'',
      ''2015 Winter'',
      ''2014 Fall'']"
  unfolding termsArray_def by simp

lemma shortNames_distinct: "distinct (map shortName termsArray)"
  unfolding shortNames_list by simp

lemma termKeys:
  "map termKey (map shortName termsArray) =
     [(2023, 0), (2023, 1), (2023, 2), (2023, 3), (2023, 4), (2023, 5), (2022, 0),
      (2022, 1), (2022, 2), (2022, 3), (2022, 4), (2022, 5), (2021, 0), (2021, 1),
      (2021, 2), (2021, 3), (2021, 4), (2021, 5), (2020, 0), (2020, 1), (2020, 2),
      (2020, 3), (2020, 4), (2020, 5), (2019, 0), (2019, 1), (2019, 2), (2019, 3),
      (2019, 4), (2019, 5), (2018, 0), (2018, 1), (2018, 2), (2018, 3), (2018, 4),
      (2018, 5), (2017, 0), (2017, 1), (2017, 2), (2017, 3), (2017, 4), (2017, 5),
      (2016, 0), (2016, 1), (2016, 2), (2016, 3), (2016, 4), (2016, 5), (2015, 0),
      (2015, 1), (2015, 2), (2015, 3), (2015, 4), (2015, 5), (2014, 0)]"
  unfolding shortNames_list
  by (simp add: termKey_def termYear_def digitValue_def termSession_def sessionPosition_def
      sessionsNewestFirst_def)

lemma termSessions_valid:
  "list_all (\<lambda>n. termSession n \<in> set sessionsNewestFirst) (map shortName termsArray)"
  unfolding shortNames_list by (simp add: termSession_def sessionsNewestFirst_def)

lemma transp_newerKey: "transp newerKey"
  by (auto simp add: transp_def newerKey_def)

lemma shortNames_listedBefore: "sorted_wrt listedBefore (map shortName termsArray)"
proof -
  have "successively newerKey (map termKey (map shortName termsArray))"
    unfolding termKeys by (simp add: newerKey_def)
  then have "sorted_wrt newerKey (map termKey (map shortName termsArray))"
    using successively_conv_sorted_wrt [OF transp_newerKey] by blast
  then show ?thesis
    unfolding sorted_wrt_map by (simp add: listedBefore_def)
qed

text \<open>
  Claim C1. Validation accepts a string exactly when it is the short name of an entry of
  the term table or one of the sentinels "Multiple Terms" and "Any Term"; every other
  string fails with a validation error. Every short name of the table is accepted, and
  "Not A Term" is rejected.
\<close>

theorem TermNamesSchema_accepts_exactly_term_names:
  "(TermNamesSchema s = Inr s) =
     (s \<in> shortName ` set termsArray \<or> s = ''Multiple Terms'' \<or> s = ''Any Term'') \<and>
   (s \<notin> shortName ` set termsArray \<and> s \<noteq> ''Multiple Terms'' \<and> s \<noteq> ''Any Term'' \<longrightarrow>
      TermNamesSchema s = Inl (ValidationError s)) \<and>
   (\<forall>t \<in> set termsArray. TermNamesSchema (shortName t) = Inr (shortName t)) \<and>
   TermNamesSchema ''Not A Term'' = Inl (ValidationError ''Not A Term'')"
proof -
  have "''Not A Term'' \<notin> set (map shortName termsArray)"
    unfolding shortNames_list by simp
  then have "TermNamesSchema ''Not A Term'' = Inl (ValidationError ''Not A Term'')"
    by (simp add: TermNamesSchema_def termNamesArray_unfold)
  then show ?thesis
    by (auto simp add: TermNamesSchema_def termNamesArray_unfold)
qed

text \<open>
  Claim C1, at concrete inputs: the first entry of the table, "2023 Fall", is accepted;
  "2024 Winter", which is no short name of the table and no sentinel, is rejected.
\<close>

theorem TermNamesSchema_accepts_witness:
  "hd termsArray \<in> set termsArray \<and>
   TermNamesSchema ''2023 Fall'' = Inr ''2023 Fall'' \<and>
   ''2024 Winter'' \<notin> shortName ` set termsArray \<and>
   TermNamesSchema ''2024 Winter'' = Inl (ValidationError ''2024 Winter'')"
proof -
  have a: "hd termsArray \<in> set termsArray" and b: "shortName (hd termsArray) = ''2023 Fall''"
    by (simp_all add: termsArray_def)
  have "''2024 Winter'' \<notin> set (map shortName termsArray)"
    unfolding shortNames_list by simp
  then have c: "''2024 Winter'' \<notin> shortName ` set termsArray" by simp
  show ?thesis
    using a b c TermNamesSchema_accepts_exactly_term_names [of "''2024 Winter''"]
    by auto
qed

text \<open>
  Claim C2. As a set, the derived enumeration \<open>termNamesArray\<close> is the set of all short
  names of the table together with the two sentinels "Multiple Terms" and "Any Term":
  both sentinels are in it, and nothing else is. The sentinels are no short names, and
  no name is listed twice.
\<close>

theorem termNamesArray_is_shortNames_plus_sentinels:
  "set termNamesArray = shortName ` set termsArray \<union> {''Multiple Terms'', ''Any Term''} \<and>
   ''Multiple Terms'' \<in> set termNamesArray \<and> ''Any Term'' \<in> set termNamesArray \<and>
   length termNamesArray = length termsArray + 2 \<and>
   distinct termNamesArray"
proof -
  have "distinct termNamesArray"
    unfolding termNamesArray_unfold shortNames_list by simp
  then show ?thesis
    by (auto simp add: termNamesArray_unfold)
qed

text \<open>
  Claim C3. Any two entries of the term table at different positions have different
  short names.
\<close>

theorem shortName_unique:
  "\<forall>i < length termsArray. \<forall>j < length termsArray.
     i \<noteq> j \<longrightarrow> shortName (termsArray ! i) \<noteq> shortName (termsArray ! j)"
  using shortNames_distinct by (auto simp add: distinct_conv_nth)

text \<open>Claim C3, at the first two entries of the table.\<close>

theorem shortName_unique_witness:
  "(0::nat) < length termsArray \<and> 1 < length termsArray \<and> (0::nat) \<noteq> 1 \<and>
   shortName (termsArray ! 0) \<noteq> shortName (termsArray ! 1)"
proof -
  have "(0::nat) < length termsArray" and "1 < length termsArray"
    by (simp_all add: termsArray_def)
  with shortName_unique show ?thesis by auto
qed

section \<open>The delete button\<close>

text \<open>
  Claim C4. When the store reports exactly one schedule, the delete button is disabled
  and a click on it changes nothing (the delete dialog does not open). When the store
  reports more than one schedule, the button is enabled and a click opens the dialog.
\<close>

theorem delete_disabled_iff_single_schedule:
  "(getNumberOfSchedules api s = 1 \<longrightarrow>
      DeleteScheduleButton_disabled api s \<and> DeleteScheduleButton_click api s opened = opened) \<and>
   (1 < getNumberOfSchedules api s \<longrightarrow>
      \<not> DeleteScheduleButton_disabled api s \<and> DeleteScheduleButton_click api s opened = True)"
  by (simp add: DeleteScheduleButton_disabled_def DeleteScheduleButton_click_def
      buttonClick_def DeleteScheduleButton_handleOpen_def)

text \<open>Claim C4, on the sample store with one schedule and with two schedules.\<close>

theorem delete_disabled_witness:
  "getNumberOfSchedules sampleStore oneSchedule = 1 \<and>
   DeleteScheduleButton_disabled sampleStore oneSchedule \<and>
   DeleteScheduleButton_click sampleStore oneSchedule False = False \<and>
   1 < getNumberOfSchedules sampleStore twoSchedules \<and>
   \<not> DeleteScheduleButton_disabled sampleStore twoSchedules \<and>
   DeleteScheduleButton_click sampleStore twoSchedules False = True"
  using delete_disabled_iff_single_schedule [of sampleStore oneSchedule False]
    delete_disabled_iff_single_schedule [of sampleStore twoSchedules False]
  by (simp add: sampleStore_def oneSchedule_def twoSchedules_def)

section \<open>Toolbar actions\<close>

text \<open>
  Claim C5. When the user declines the confirmation prompt, \<open>handleClearSchedule\<close> leaves
  the world as it is: the store state is unchanged and no call is made, neither to
  \<open>clearSchedules\<close> nor to the analytics collaborator.
\<close>

theorem declined_clear_changes_nothing:
  "\<not> confirm clearPrompt \<Longrightarrow>
     handleClearSchedule api confirm w = w \<and>
     store (handleClearSchedule api confirm w) = store w \<and>
     newCalls w (handleClearSchedule api confirm w) = []"
  by (simp add: handleClearSchedule_def newCalls_def)

text \<open>Claim C5, for a user who declines, on the sample store.\<close>

theorem declined_clear_witness:
  "\<not> userDeclines clearPrompt \<and>
   handleClearSchedule sampleStore userDeclines sampleWorld = sampleWorld \<and>
   store (handleClearSchedule sampleStore userDeclines sampleWorld) = twoSchedules \<and>
   newCalls sampleWorld (handleClearSchedule sampleStore userDeclines sampleWorld) = []"
  using declined_clear_changes_nothing [of userDeclines sampleStore sampleWorld]
  by (simp add: userDeclines_def sampleWorld_def newCalls_def)

text \<open>
  Claim C6 as stated (every action that is not skipped reports the analytics event
  first and mutates the store second) fails for the clear action: when the user
  accepts the prompt, the calls of \<open>handleClearSchedule\<close> are not an analytics report
  followed by a mutation.
\<close>

theorem confirmed_clear_not_analytics_first:
  "userAccepts clearPrompt \<and>
   newCalls sampleWorld (handleClearSchedule sampleStore userAccepts sampleWorld) =
     [Dispatch ClearSchedules, LogAnalytics CalendarTitle CLEAR_SCHEDULE] \<and>
   \<not> analyticsThenMutation
        (newCalls sampleWorld (handleClearSchedule sampleStore userAccepts sampleWorld))"
  by (simp add: userAccepts_def handleClearSchedule_def newCalls_def sampleWorld_def
      logAnalytics_def dispatch_def)

text \<open>
  Claim C6, amended. Undo and the finals toggle report the analytics event first and
  then perform the mutation. A confirmed clear performs the mutation \<open>clearSchedules\<close>
  first and reports the analytics event second. Each of the three makes exactly these
  two calls.
\<close>

theorem toolbar_action_call_order:
  "newCalls w (handleUndo api w) = [LogAnalytics CalendarTitle UNDO, Dispatch UndoDelete] \<and>
   store (handleUndo api w) = undoDelete api (store w) \<and>
   newCalls w (handleToggleFinals toggle w) =
     [LogAnalytics CalendarTitle DISPLAY_FINALS, Dispatch ToggleDisplayFinalsSchedule] \<and>
   store (handleToggleFinals toggle w) = toggle (store w) \<and>
   (confirm clearPrompt \<longrightarrow>
      newCalls w (handleClearSchedule api confirm w) =
        [Dispatch ClearSchedules, LogAnalytics CalendarTitle CLEAR_SCHEDULE] \<and>
      store (handleClearSchedule api confirm w) = clearSchedules api (store w))"
  by (simp add: handleUndo_def handleToggleFinals_def handleClearSchedule_def newCalls_def
      logAnalytics_def dispatch_def)

text \<open>Claim C6, amended, for a user who accepts, on the sample store.\<close>

theorem toolbar_action_call_order_witness:
  "userAccepts clearPrompt \<and>
   newCalls sampleWorld (handleClearSchedule sampleStore userAccepts sampleWorld) =
     [Dispatch ClearSchedules, LogAnalytics CalendarTitle CLEAR_SCHEDULE] \<and>
   analyticsThenMutation (newCalls sampleWorld (handleUndo sampleStore sampleWorld)) \<and>
   analyticsThenMutation (newCalls sampleWorld (handleToggleFinals sampleToggle sampleWorld))"
  using toolbar_action_call_order [of sampleWorld sampleStore sampleToggle userAccepts]
  by (simp add: userAccepts_def)

section \<open>The schedule buttons of the popover\<close>

lemma emit_anchorEl: "anchorEl (emit api s em name st) = anchorEl st"
proof -
  have "anchorEl (fold (runListener api s) ls st) = anchorEl st" for ls
  proof (induction ls arbitrary: st)
    case Nil
    show ?case by simp
  next
    case (Cons l ls)
    have "anchorEl (runListener api s l st) = anchorEl st"
      by (cases l) (simp_all add: handleScheduleIndexChange_def handleScheduleNamesChange_def)
    with Cons show ?case by simp
  qed
  then show ?thesis by (simp add: emit_def)
qed

lemma deliver_anchorEl:
  "anchorEl (fold (\<lambda>name. emit api s em name) emitted st) = anchorEl st"
  by (induction emitted arbitrary: st) (simp_all add: emit_anchorEl)

lemma sampleStore_getters:
  "getCurrentScheduleIndex sampleStore s = fst s"
  "getTermToScheduleMap sampleStore s = snd s"
  by (simp_all add: sampleStore_def)

lemma scheduleButtons_opened:
  "scheduleButtons sampleStore openedPopover =
     [\<lparr>buttonKey = 0, buttonLabel = ''Schedule 1'', buttonSelected = True,
       buttonOnClick = createScheduleSelector sampleStore 0\<rparr>,
      \<lparr>buttonKey = 1, buttonLabel = ''Schedule 2'', buttonSelected = False,
       buttonOnClick = createScheduleSelector sampleStore 1\<rparr>]"
  by (simp add: scheduleButtons_def openedPopover_def handleClick_def render_def
      SelectSchedulePopover_init_def twoSchedules_def sampleStore_getters)

lemma scheduleButtons_handler:
  "button \<in> set (scheduleButtons api st) \<Longrightarrow>
     buttonOnClick button = createScheduleSelector api (buttonKey button) \<and>
     (buttonKey button, buttonLabel button) \<in> set (concat (map snd (scheduleMap st)))"
proof -
  assume "button \<in> set (scheduleButtons api st)"
  then obtain termName scheduleNames scheduleIndex scheduleName
    where entry: "(termName, scheduleNames) \<in> set (scheduleMap st)"
      and pair: "(scheduleIndex, scheduleName) \<in> set scheduleNames"
      and button: "button =
        \<lparr>buttonKey = scheduleIndex, buttonLabel = scheduleName,
         buttonSelected = (scheduleIndex = currentScheduleIndex st),
         buttonOnClick = createScheduleSelector api scheduleIndex\<rparr>"
    by (auto simp add: scheduleButtons_def)
  from entry have "scheduleNames \<in> snd ` set (scheduleMap st)"
    by force
  with pair have "(scheduleIndex, scheduleName) \<in> set (concat (map snd (scheduleMap st)))"
    by auto
  with button show ?thesis by simp
qed

text \<open>
  Claim C7 as stated (a click on a schedule button dispatches the change and closes the
  popover) fails in its second half: the popover opened from element 7 on the sample
  store shows the button of schedule 1 ("Schedule 2"), and after a click on it the
  anchor is still element 7, so the popover is still open.
\<close>

theorem schedule_button_click_leaves_popover_open:
  "secondButton \<in> set (scheduleButtons sampleStore openedPopover) \<and>
   buttonKey secondButton = 1 \<and>
   popoverOpen openedPopover \<and>
   anchorEl (fst (clickScheduleButton sampleStore sampleEmitter [''currentScheduleIndexChange'']
                    secondButton (openedPopover, sampleWorld))) = Some 7 \<and>
   popoverOpen (fst (clickScheduleButton sampleStore sampleEmitter [''currentScheduleIndexChange'']
                    secondButton (openedPopover, sampleWorld)))"
proof -
  have "anchorEl openedPopover = Some 7"
    by (simp add: openedPopover_def handleClick_def)
  then show ?thesis
    by (simp add: secondButton_def scheduleButtons_opened popoverOpen_def
        clickScheduleButton_def Let_def emit_anchorEl)
qed

text \<open>
  Claim C7, amended. For every schedule button shown in the popover, which stands for a
  pair (index, name) of the map, a click reports the analytics event and then dispatches
  the change-current-schedule action with the index of that button. The click leaves the
  anchor of the popover as it was, whatever events the store emits; the anchor is
  cleared by \<open>handleClose\<close>, the popover's own close handler.
\<close>

theorem schedule_button_click_dispatches_index:
  "button \<in> set (scheduleButtons api st) \<Longrightarrow>
   (buttonKey button, buttonLabel button) \<in> set (concat (map snd (scheduleMap st))) \<and>
   newCalls w (snd (clickScheduleButton api em emitted button (st, w))) =
     [LogAnalytics CalendarTitle CHANGE_SCHEDULE, Dispatch (ChangeCurrentSchedule (buttonKey button))] \<and>
   store (snd (clickScheduleButton api em emitted button (st, w))) =
     changeCurrentSchedule api (buttonKey button) (store w) \<and>
   anchorEl (fst (clickScheduleButton api em emitted button (st, w))) = anchorEl st \<and>
   anchorEl (handleClose st) = None"
  using scheduleButtons_handler [of button api st]
  by (simp add: clickScheduleButton_def Let_def deliver_anchorEl createScheduleSelector_def
      handleScheduleChange_def newCalls_def logAnalytics_def dispatch_def handleClose_def)

text \<open>Claim C7, amended, for the second button of the opened sample popover.\<close>

theorem schedule_button_click_witness:
  "secondButton \<in> set (scheduleButtons sampleStore openedPopover) \<and>
   newCalls sampleWorld (snd (clickScheduleButton sampleStore sampleEmitter
       [''currentScheduleIndexChange''] secondButton (openedPopover, sampleWorld))) =
     [LogAnalytics CalendarTitle CHANGE_SCHEDULE, Dispatch (ChangeCurrentSchedule 1)] \<and>
   store (snd (clickScheduleButton sampleStore sampleEmitter
       [''currentScheduleIndexChange''] secondButton (openedPopover, sampleWorld))) =
     (1, snd twoSchedules)"
proof -
  have m: "secondButton \<in> set (scheduleButtons sampleStore openedPopover)"
    and k: "buttonKey secondButton = 1"
    by (simp_all add: secondButton_def scheduleButtons_opened)
  have c: "changeCurrentSchedule sampleStore 1 (store sampleWorld) = (1, snd twoSchedules)"
    by (simp add: sampleStore_def sampleWorld_def)
  show ?thesis
    using schedule_button_click_dispatches_index [OF m, of sampleWorld sampleEmitter
        "[''currentScheduleIndexChange'']"] m k c
    by simp
qed

section \<open>Subscriptions of the popover\<close>

lemma off_on_cancel: "AppStore_off name h (AppStore_on name h em) = em"
  by (rule ext) (simp add: AppStore_off_def AppStore_on_def)

lemma off_on_swap:
  "name \<noteq> name' \<Longrightarrow>
     AppStore_off name h (AppStore_on name' h' em) = AppStore_on name' h' (AppStore_off name h em)"
  by (rule ext) (simp add: AppStore_off_def AppStore_on_def)

text \<open>
  Claim C8. The effect of the popover subscribes to the five events addedCoursesChange,
  customEventsChange, colorChange, currentScheduleIndexChange and scheduleNamesChange;
  its cleanup unsubscribes the same callback from each of the same five names; and
  mounting followed by cleanup leaves the listeners of the store as they were.
\<close>

theorem popover_mount_then_cleanup_restores_listeners:
  "map fst (effectSubscriptions handleIndex handleNames) =
     [''addedCoursesChange'', ''customEventsChange'', ''colorChange'',
      ''currentScheduleIndexChange'', ''scheduleNamesChange''] \<and>
   cleanupUnsubscriptions handleIndex handleNames = effectSubscriptions handleIndex handleNames \<and>
   useEffect_cleanup handleIndex handleNames (useEffect_mount handleIndex handleNames em) = em"
proof -
  have "useEffect_cleanup handleIndex handleNames (useEffect_mount handleIndex handleNames em) = em"
    by (simp add: useEffect_cleanup_def useEffect_mount_def cleanupUnsubscriptions_def
        effectSubscriptions_def off_on_swap off_on_cancel)
  then show ?thesis
    by (simp add: cleanupUnsubscriptions_def effectSubscriptions_def)
qed

section \<open>The name of the current schedule\<close>

lemma searchPairs_map_of: "searchPairs ps c = map_of ps c"
  by (induction ps c rule: searchPairs.induct) simp_all

lemma searchValues_map_of:
  "searchValues vs c = (case map_of (concat vs) c of None \<Rightarrow> ''N/A'' | Some n \<Rightarrow> n)"
  by (induction vs) (auto simp add: searchPairs_map_of map_add_def split: option.splits)

text \<open>What the callback computes from the map and the index it is run with.\<close>

lemma computeCurrentScheduleName_absent:
  "c \<notin> fst ` set (concat (map snd m)) \<Longrightarrow> computeCurrentScheduleName m c = ''N/A''"
  by (simp add: computeCurrentScheduleName_def searchValues_map_of map_of_eq_None_iff [THEN iffD2])

lemma map_of_first: "c \<notin> fst ` set pre \<Longrightarrow> map_of (pre @ (c, n) # post) c = Some n"
  by (induction pre) auto

lemma computeCurrentScheduleName_first:
  "concat (map snd m) = pre @ (c, n) # post \<Longrightarrow> c \<notin> fst ` set pre \<Longrightarrow>
     computeCurrentScheduleName m c = n"
  by (simp add: computeCurrentScheduleName_def searchValues_map_of map_of_first
      del: map_of_append)

text \<open>The displayed name is what the callback computes when the callback is run.\<close>

lemma currentScheduleName_recomputed:
  "nameMemo st = None \<or>
   (\<exists>cell. nameMemo st = Some cell \<and> memoDeps cell \<noteq> currentScheduleIndex st) \<Longrightarrow>
   currentScheduleName st = computeCurrentScheduleName (scheduleMap st) (currentScheduleIndex st)"
  by (auto simp add: currentScheduleName_def useMemo_currentScheduleName_def)

text \<open>
  Claim C9 says that the displayed name is the name paired with the first occurrence of
  the current index in the term-to-schedule map. After the popover was rendered on a
  store with the single schedule (0, "Schedule 1") and the store announced the map with
  (0, "Renamed"), the current index is 0 and the map pairs it with "Renamed", but the
  displayed name is still "Schedule 1": the memoised value depends on the index alone.
\<close>

theorem renamed_schedule_shows_stale_name:
  "currentScheduleIndex renamedPopover = 0 \<and>
   scheduleMap renamedPopover = [(''2023 Fall'', [(0, ''Renamed'')])] \<and>
   computeCurrentScheduleName (scheduleMap renamedPopover) (currentScheduleIndex renamedPopover) =
     ''Renamed'' \<and>
   currentScheduleName renamedPopover = ''Schedule 1''"
  by (simp add: renamedPopover_def handleScheduleNamesChange_def render_def
      SelectSchedulePopover_init_def sampleStore_def oneSchedule_def oneScheduleRenamed_def
      currentScheduleName_def useMemo_currentScheduleName_def computeCurrentScheduleName_def)

section \<open>The order of the term table\<close>

text \<open>
  Claim C10. The term table is listed newest first: the years of the short names never
  increase from one entry to a later one; every entry is strictly newer than every later
  entry, where within a year the sessions come in the order Fall, Summer2, Summer10wk,
  Summer1, Spring, Winter; the first entry is "2023 Fall" and the last "2014 Fall". The
  derived enumeration lists the short names in the order of the table, followed by the
  two sentinels.
\<close>

theorem termsArray_newest_first:
  "sorted_wrt (\<lambda>a b. termYear b \<le> termYear a) (map shortName termsArray) \<and>
   sorted_wrt listedBefore (map shortName termsArray) \<and>
   list_all (\<lambda>n. termSession n \<in> set sessionsNewestFirst) (map shortName termsArray) \<and>
   hd (map shortName termsArray) = ''2023 Fall'' \<and>
   last (map shortName termsArray) = ''2014 Fall'' \<and>
   termNamesArray = map shortName termsArray @ [''Multiple Terms'', ''Any Term'']"
proof -
  have "sorted_wrt (\<lambda>a b. termYear b \<le> termYear a) (map shortName termsArray)"
    by (rule sorted_wrt_mono_rel [OF _ shortNames_listedBefore])
       (auto simp add: listedBefore_def newerKey_def termKey_def)
  moreover have "hd (map shortName termsArray) = ''2023 Fall''"
    and "last (map shortName termsArray) = ''2014 Fall''"
    unfolding shortNames_list by simp_all
  ultimately show ?thesis
    using shortNames_listedBefore termSessions_valid termNamesArray_unfold by simp
qed

end
